theory Spec2Isabelle
  imports Complex_Main
begin

section \<open>The tax computation engine (src/server/services/taxService.ts)\<close>

text \<open>
  The engine computes on JavaScript numbers. The source is read twice.

  In the first reading a number is an exact rational, so \<open>*\<close>, \<open>/\<close>, \<open>+\<close> and
  \<open>-\<close> are the exact field operations. The only non-finite value the program itself
  writes, the upper bound \<open>Infinity\<close> of the last slab, has a constructor of its own.

  The second reading, further down, adds what the first leaves out: the values
  \<open>Infinity\<close>, \<open>-Infinity\<close> and \<open>NaN\<close>, and the overflow of a result that lies beyond
  the largest double. It is used where a statement ranges over every number, and it is
  proved to agree with the first reading on every income up to \<open>10 ^ 306\<close> in magnitude.

  In both readings the binary rounding of a finite result to 53 bits is not part of the
  model. Nothing in the file throws, so no function has an error branch.
\<close>

type_synonym number = rat

datatype limit = Finite number | Infinity

subsection \<open>Data\<close>

record TaxSlabs =
  min_slab :: number
  max_slab :: limit
  rate :: number

datatype scheme = Section44ada | Regular

record AdvanceTaxPayment =
  quarter :: number
  percentage :: number
  amount :: number
  dueDate :: string
  description :: string

record TaxCalculationResult =
  totalIncome :: number
  section44adaIncome :: number
  regularTaxableIncome :: number
  section44adaTax :: number
  regularTax :: number
  recommendedScheme :: scheme
  savings :: number
  advanceTaxSchedule :: "AdvanceTaxPayment list"

text \<open>
  What the engine reads of \<open>new Date()\<close>: the calendar year and the month, which
  \<open>getMonth\<close> counts from 0. The current date is a parameter of every function that
  reads the clock.
\<close>

record Date =
  getFullYear :: int
  getMonth :: nat

subsection \<open>Library functions of the host language\<close>

text \<open>\<open>Math.round\<close>: the nearest integer, a tie going up.\<close>

definition Math_round :: "number \<Rightarrow> number" where
  "Math_round x = of_int \<lfloor>x + 1 / 2\<rfloor>"

text \<open>\<open>Math.min\<close> of a finite number and a slab's upper bound.\<close>

fun Math_min :: "number \<Rightarrow> limit \<Rightarrow> number" where
  "Math_min x (Finite m) = min x m"
| "Math_min x Infinity = x"

text \<open>Decimal rendering of a whole number, as \<open>toString\<close> and a template literal give it.\<close>

definition digit :: "nat \<Rightarrow> char" where
  "digit d = ''0123456789'' ! d"

fun string_of_nat :: "nat \<Rightarrow> string" where
  "string_of_nat n =
     (if n < 10 then [digit n] else string_of_nat (n div 10) @ [digit (n mod 10)])"

declare string_of_nat.simps [simp del]

definition toString :: "int \<Rightarrow> string" where
  "toString i = (if i < 0 then ''-'' @ string_of_nat (nat (- i)) else string_of_nat (nat i))"

text \<open>\<open>s.slice(-2)\<close>: the last two characters, or all of \<open>s\<close> when it is shorter.\<close>

definition slice_last2 :: "string \<Rightarrow> string" where
  "slice_last2 s = drop (length s - 2) s"

subsection \<open>Configuration\<close>

definition taxSlabs :: "TaxSlabs list" where
  "taxSlabs =
    [\<lparr>min_slab = 0, max_slab = Finite 300000, rate = 0\<rparr>,
     \<lparr>min_slab = 300000, max_slab = Finite 700000, rate = 5\<rparr>,
     \<lparr>min_slab = 700000, max_slab = Finite 1000000, rate = 10\<rparr>,
     \<lparr>min_slab = 1000000, max_slab = Finite 1200000, rate = 15\<rparr>,
     \<lparr>min_slab = 1200000, max_slab = Finite 1500000, rate = 20\<rparr>,
     \<lparr>min_slab = 1500000, max_slab = Infinity, rate = 30\<rparr>]"

definition standardDeduction :: number where
  "standardDeduction = 50000"

definition healthInsuranceDeduction :: number where
  "healthInsuranceDeduction = 25000"

subsection \<open>calculateIncomeTax\<close>

text \<open>The \<open>for\<close> loop over the slabs, with the running \<open>tax\<close> as accumulator.\<close>

fun slab_loop :: "number \<Rightarrow> TaxSlabs list \<Rightarrow> number \<Rightarrow> number" where
  "slab_loop taxableIncome [] tax = tax"
| "slab_loop taxableIncome (slab # slabs) tax =
     (if taxableIncome > min_slab slab
      then (let taxableAmountInSlab = Math_min taxableIncome (max_slab slab) - min_slab slab
            in slab_loop taxableIncome slabs (tax + (taxableAmountInSlab * rate slab) / 100))
      else slab_loop taxableIncome slabs tax)"

definition calculateIncomeTax :: "number \<Rightarrow> number" where
  "calculateIncomeTax taxableIncome =
     (let tax = slab_loop taxableIncome taxSlabs 0;
          tax = tax * 1.04
      in Math_round tax)"

subsection \<open>calculateAdvanceTaxSchedule\<close>

definition calculateAdvanceTaxSchedule :: "Date \<Rightarrow> number \<Rightarrow> AdvanceTaxPayment list" where
  "calculateAdvanceTaxSchedule now annualTax =
     (let currentYear = getFullYear now;
          financialYear = currentYear
      in [\<lparr>quarter = 1, percentage = 15, amount = Math_round (annualTax * 0.15),
           dueDate = toString financialYear @ ''-06-15'',
           description = ''Q1 (15% by 15 Jun)''\<rparr>,
          \<lparr>quarter = 2, percentage = 45, amount = Math_round (annualTax * 0.45),
           dueDate = toString financialYear @ ''-09-15'',
           description = ''Q2 (45% by 15 Sep)''\<rparr>,
          \<lparr>quarter = 3, percentage = 75, amount = Math_round (annualTax * 0.75),
           dueDate = toString financialYear @ ''-12-15'',
           description = ''Q3 (75% by 15 Dec)''\<rparr>,
          \<lparr>quarter = 4, percentage = 100, amount = annualTax,
           dueDate = toString (financialYear + 1) @ ''-03-15'',
           description = ''Q4 (100% by 15 Mar)''\<rparr>])"

subsection \<open>calculateTax\<close>

text \<open>
  The two taxable incomes are local constants of \<open>calculateTax\<close>; only the second is a
  field of the result. They are named here so that statements can speak of both.
\<close>

definition section44adaTaxableIncome :: "number \<Rightarrow> number" where
  "section44adaTaxableIncome totalIncome' =
     (let section44adaIncome = totalIncome' * 0.5
      in max 0 (section44adaIncome - standardDeduction))"

definition regularTaxableIncome_of :: "number \<Rightarrow> bool \<Rightarrow> number" where
  "regularTaxableIncome_of totalIncome' hasHealthInsurance =
     (let actualExpenses = totalIncome' * 0.1
      in max 0 (totalIncome' - actualExpenses - standardDeduction -
                (if hasHealthInsurance then healthInsuranceDeduction else 0)))"

definition calculateTax :: "Date \<Rightarrow> number \<Rightarrow> bool \<Rightarrow> TaxCalculationResult" where
  "calculateTax now totalIncome' hasHealthInsurance =
     (let section44adaIncome = totalIncome' * 0.5;
          section44adaTaxableIncome = max 0 (section44adaIncome - standardDeduction);
          section44adaTax = calculateIncomeTax section44adaTaxableIncome;
          actualExpenses = totalIncome' * 0.1;
          regularTaxableIncome = max 0 (totalIncome' - actualExpenses - standardDeduction -
                (if hasHealthInsurance then healthInsuranceDeduction else 0));
          regularTax = calculateIncomeTax regularTaxableIncome;
          recommendedScheme = (if section44adaTax \<le> regularTax then Section44ada else Regular);
          finalTax = (if recommendedScheme = Section44ada then section44adaTax else regularTax);
          savings = \<bar>section44adaTax - regularTax\<bar>;
          advanceTaxSchedule = calculateAdvanceTaxSchedule now finalTax
      in \<lparr>totalIncome = totalIncome',
          section44adaIncome = section44adaIncome,
          regularTaxableIncome = regularTaxableIncome,
          section44adaTax = section44adaTax,
          regularTax = regularTax,
          recommendedScheme = recommendedScheme,
          savings = savings,
          advanceTaxSchedule = advanceTaxSchedule\<rparr>)"

subsection \<open>calculateGST\<close>

definition calculateGST :: "number \<Rightarrow> number \<Rightarrow> number" where
  "calculateGST amount' gstRate = Math_round ((amount' * gstRate) / 100)"

subsection \<open>getCurrentFinancialYear\<close>

definition getCurrentFinancialYear :: "Date \<Rightarrow> string" where
  "getCurrentFinancialYear now =
     (let year = getFullYear now;
          month = getMonth now + 1
      in if month \<ge> 4
         then toString year @ ''-'' @ slice_last2 (toString (year + 1))
         else toString (year - 1) @ ''-'' @ slice_last2 (toString year))"

definition getQuarterFromDate :: "Date \<Rightarrow> nat" where
  "getQuarterFromDate date =
     (let month = getMonth date + 1
      in if month \<ge> 4 \<and> month \<le> 6 then 1
         else if month \<ge> 7 \<and> month \<le> 9 then 2
         else if month \<ge> 10 \<and> month \<le> 12 then 3
         else 4)"

section \<open>The engine with overflow and non-finite numbers\<close>

text \<open>
  A number is now a finite rational, \<open>Infinity\<close>, \<open>-Infinity\<close> or \<open>NaN\<close>. An operation
  on finite numbers computes the exact result and lets it overflow: a result at or beyond
  \<open>2 ^ 1024 - 2 ^ 970\<close>, the point from which a double rounds to infinity, becomes
  \<open>Infinity\<close> or \<open>-Infinity\<close>. On non-finite operands the operations follow IEEE 754:
  \<open>Infinity - Infinity\<close>, \<open>Infinity * 0\<close> and \<open>0 / 0\<close> are \<open>NaN\<close>, every comparison
  with \<open>NaN\<close> is false, and \<open>Math.max\<close>, \<open>Math.min\<close> and \<open>Math.abs\<close> return
  \<open>NaN\<close> for a \<open>NaN\<close> argument. Zero has no sign in the model.
\<close>

subsection \<open>Numbers and their operations\<close>

datatype jsnum = Fin rat | PInf | NInf | NaN

text \<open>The exact result of an operation on finite numbers, as the number the operation returns.\<close>

definition overflow_bound :: rat where
  "overflow_bound = 2 ^ 1024 - 2 ^ 970"

definition overflow :: "rat \<Rightarrow> jsnum" where
  "overflow q =
     (if q \<ge> overflow_bound then PInf
      else if q \<le> - overflow_bound then NInf
      else Fin q)"

text \<open>The operators \<open>-x\<close>, \<open>x + y\<close>, \<open>x - y\<close>, \<open>x * y\<close> and \<open>x / y\<close>.\<close>

fun js_neg :: "jsnum \<Rightarrow> jsnum" where
  "js_neg (Fin a) = Fin (- a)"
| "js_neg PInf = NInf"
| "js_neg NInf = PInf"
| "js_neg NaN = NaN"

fun js_add :: "jsnum \<Rightarrow> jsnum \<Rightarrow> jsnum" where
  "js_add NaN y = NaN"
| "js_add x NaN = NaN"
| "js_add (Fin a) (Fin b) = overflow (a + b)"
| "js_add PInf NInf = NaN"
| "js_add NInf PInf = NaN"
| "js_add PInf y = PInf"
| "js_add x PInf = PInf"
| "js_add NInf y = NInf"
| "js_add x NInf = NInf"

definition js_sub :: "jsnum \<Rightarrow> jsnum \<Rightarrow> jsnum" where
  "js_sub x y = js_add x (js_neg y)"

fun js_mul :: "jsnum \<Rightarrow> jsnum \<Rightarrow> jsnum" where
  "js_mul NaN y = NaN"
| "js_mul x NaN = NaN"
| "js_mul (Fin a) (Fin b) = overflow (a * b)"
| "js_mul (Fin a) y = (if a = 0 then NaN else if a > 0 then y else js_neg y)"
| "js_mul x (Fin b) = (if b = 0 then NaN else if b > 0 then x else js_neg x)"
| "js_mul PInf y = y"
| "js_mul NInf y = js_neg y"

fun js_div :: "jsnum \<Rightarrow> jsnum \<Rightarrow> jsnum" where
  "js_div NaN y = NaN"
| "js_div x NaN = NaN"
| "js_div (Fin a) (Fin b) =
     (if b = 0 then (if a = 0 then NaN else if a > 0 then PInf else NInf)
      else overflow (a / b))"
| "js_div (Fin a) y = Fin 0"
| "js_div x (Fin b) = (if b \<ge> 0 then x else js_neg x)"
| "js_div x y = NaN"

text \<open>The comparisons \<open>x <= y\<close> and \<open>x > y\<close>.\<close>

fun js_le :: "jsnum \<Rightarrow> jsnum \<Rightarrow> bool" where
  "js_le NaN y = False"
| "js_le x NaN = False"
| "js_le (Fin a) (Fin b) = (a \<le> b)"
| "js_le NInf y = True"
| "js_le x PInf = True"
| "js_le x y = False"

fun js_gt :: "jsnum \<Rightarrow> jsnum \<Rightarrow> bool" where
  "js_gt NaN y = False"
| "js_gt x NaN = False"
| "js_gt x y = (\<not> js_le x y)"

text \<open>\<open>Math.max\<close>, \<open>Math.min\<close>, \<open>Math.abs\<close> and \<open>Math.round\<close>.\<close>

fun Math_max_js :: "jsnum \<Rightarrow> jsnum \<Rightarrow> jsnum" where
  "Math_max_js NaN y = NaN"
| "Math_max_js x NaN = NaN"
| "Math_max_js x y = (if js_le x y then y else x)"

fun Math_min_js :: "jsnum \<Rightarrow> jsnum \<Rightarrow> jsnum" where
  "Math_min_js NaN y = NaN"
| "Math_min_js x NaN = NaN"
| "Math_min_js x y = (if js_le x y then x else y)"

fun Math_abs_js :: "jsnum \<Rightarrow> jsnum" where
  "Math_abs_js (Fin a) = Fin \<bar>a\<bar>"
| "Math_abs_js PInf = PInf"
| "Math_abs_js NInf = PInf"
| "Math_abs_js NaN = NaN"

fun Math_round_js :: "jsnum \<Rightarrow> jsnum" where
  "Math_round_js (Fin a) = overflow (Math_round a)"
| "Math_round_js x = x"

subsection \<open>Data and configuration\<close>

record TaxSlabs_js =
  min_js :: jsnum
  max_js :: jsnum
  rate_js :: jsnum

record AdvanceTaxPayment_js =
  quarter_js :: jsnum
  percentage_js :: jsnum
  amount_js :: jsnum
  dueDate_js :: string
  description_js :: string

record TaxCalculationResult_js =
  totalIncome_js :: jsnum
  section44adaIncome_js :: jsnum
  regularTaxableIncome_js :: jsnum
  section44adaTax_js :: jsnum
  regularTax_js :: jsnum
  recommendedScheme_js :: scheme
  savings_js :: jsnum
  advanceTaxSchedule_js :: "AdvanceTaxPayment_js list"

definition taxSlabs_js :: "TaxSlabs_js list" where
  "taxSlabs_js =
    [\<lparr>min_js = Fin 0, max_js = Fin 300000, rate_js = Fin 0\<rparr>,
     \<lparr>min_js = Fin 300000, max_js = Fin 700000, rate_js = Fin 5\<rparr>,
     \<lparr>min_js = Fin 700000, max_js = Fin 1000000, rate_js = Fin 10\<rparr>,
     \<lparr>min_js = Fin 1000000, max_js = Fin 1200000, rate_js = Fin 15\<rparr>,
     \<lparr>min_js = Fin 1200000, max_js = Fin 1500000, rate_js = Fin 20\<rparr>,
     \<lparr>min_js = Fin 1500000, max_js = PInf, rate_js = Fin 30\<rparr>]"

subsection \<open>The functions of the engine\<close>

text \<open>
  Each function is the one of the first reading, operator for operator, on the numbers of
  this section. \<open>getCurrentFinancialYear\<close> and \<open>getQuarterFromDate\<close> compute on the
  year and the month only and are the same in both readings.
\<close>

fun slab_loop_js :: "jsnum \<Rightarrow> TaxSlabs_js list \<Rightarrow> jsnum \<Rightarrow> jsnum" where
  "slab_loop_js taxableIncome [] tax = tax"
| "slab_loop_js taxableIncome (slab # slabs) tax =
     (if js_gt taxableIncome (min_js slab)
      then (let taxableAmountInSlab =
                  js_sub (Math_min_js taxableIncome (max_js slab)) (min_js slab)
            in slab_loop_js taxableIncome slabs
                 (js_add tax (js_div (js_mul taxableAmountInSlab (rate_js slab)) (Fin 100))))
      else slab_loop_js taxableIncome slabs tax)"

definition calculateIncomeTax_js :: "jsnum \<Rightarrow> jsnum" where
  "calculateIncomeTax_js taxableIncome =
     (let tax = slab_loop_js taxableIncome taxSlabs_js (Fin 0);
          tax = js_mul tax (Fin 1.04)
      in Math_round_js tax)"

definition calculateAdvanceTaxSchedule_js :: "Date \<Rightarrow> jsnum \<Rightarrow> AdvanceTaxPayment_js list" where
  "calculateAdvanceTaxSchedule_js now annualTax =
     (let currentYear = getFullYear now;
          financialYear = currentYear
      in [\<lparr>quarter_js = Fin 1, percentage_js = Fin 15,
           amount_js = Math_round_js (js_mul annualTax (Fin 0.15)),
           dueDate_js = toString financialYear @ ''-06-15'',
           description_js = ''Q1 (15% by 15 Jun)''\<rparr>,
          \<lparr>quarter_js = Fin 2, percentage_js = Fin 45,
           amount_js = Math_round_js (js_mul annualTax (Fin 0.45)),
           dueDate_js = toString financialYear @ ''-09-15'',
           description_js = ''Q2 (45% by 15 Sep)''\<rparr>,
          \<lparr>quarter_js = Fin 3, percentage_js = Fin 75,
           amount_js = Math_round_js (js_mul annualTax (Fin 0.75)),
           dueDate_js = toString financialYear @ ''-12-15'',
           description_js = ''Q3 (75% by 15 Dec)''\<rparr>,
          \<lparr>quarter_js = Fin 4, percentage_js = Fin 100,
           amount_js = annualTax,
           dueDate_js = toString (financialYear + 1) @ ''-03-15'',
           description_js = ''Q4 (100% by 15 Mar)''\<rparr>])"

definition calculateTax_js :: "Date \<Rightarrow> jsnum \<Rightarrow> bool \<Rightarrow> TaxCalculationResult_js" where
  "calculateTax_js now totalIncome' hasHealthInsurance =
     (let section44adaIncome = js_mul totalIncome' (Fin 0.5);
          section44adaTaxableIncome =
            Math_max_js (Fin 0) (js_sub section44adaIncome (Fin standardDeduction));
          section44adaTax = calculateIncomeTax_js section44adaTaxableIncome;
          actualExpenses = js_mul totalIncome' (Fin 0.1);
          regularTaxableIncome =
            Math_max_js (Fin 0)
              (js_sub (js_sub (js_sub totalIncome' actualExpenses) (Fin standardDeduction))
                 (if hasHealthInsurance then Fin healthInsuranceDeduction else Fin 0));
          regularTax = calculateIncomeTax_js regularTaxableIncome;
          recommendedScheme = (if js_le section44adaTax regularTax then Section44ada else Regular);
          finalTax = (if recommendedScheme = Section44ada then section44adaTax else regularTax);
          savings = Math_abs_js (js_sub section44adaTax regularTax);
          advanceTaxSchedule = calculateAdvanceTaxSchedule_js now finalTax
      in \<lparr>totalIncome_js = totalIncome',
          section44adaIncome_js = section44adaIncome,
          regularTaxableIncome_js = regularTaxableIncome,
          section44adaTax_js = section44adaTax,
          regularTax_js = regularTax,
          recommendedScheme_js = recommendedScheme,
          savings_js = savings,
          advanceTaxSchedule_js = advanceTaxSchedule\<rparr>)"

definition calculateGST_js :: "jsnum \<Rightarrow> jsnum \<Rightarrow> jsnum" where
  "calculateGST_js amount' gstRate = Math_round_js (js_div (js_mul amount' gstRate) (Fin 100))"

section \<open>Notions used in the statements\<close>

text \<open>What one slab adds to the running tax in one pass of the loop.\<close>

definition slab_part :: "number \<Rightarrow> TaxSlabs \<Rightarrow> number" where
  "slab_part taxableIncome slab =
     (if taxableIncome > min_slab slab
      then ((Math_min taxableIncome (max_slab slab) - min_slab slab) * rate slab) / 100
      else 0)"

text \<open>
  The financial year as the specification words it, for calendar year \<open>Y\<close> and the
  month counted from 1: both numbers of the label are put into the string as they are.
\<close>

definition financialYear_spec :: "int \<Rightarrow> nat \<Rightarrow> string" where
  "financialYear_spec Y month =
     (if month \<ge> 4 then toString Y @ ''-'' @ toString ((Y + 1) mod 100)
      else toString (Y - 1) @ ''-'' @ toString (Y mod 100))"

text \<open>A number below 100 written with exactly two digits.\<close>

definition two_digits :: "int \<Rightarrow> string" where
  "two_digits m = [digit (nat m div 10), digit (nat m mod 10)]"

text \<open>
  The incomes on which the two readings are proved to agree, and what it means for a
  result to be well defined: every numeric field is a finite number.
\<close>

definition income_bound :: rat where
  "income_bound = 10 ^ 306"

text \<open>A number that is neither infinite nor \<open>NaN\<close>.\<close>

fun is_finite :: "jsnum \<Rightarrow> bool" where
  "is_finite (Fin a) = True"
| "is_finite x = False"

definition finite_result :: "TaxCalculationResult_js \<Rightarrow> bool" where
  "finite_result r =
     (is_finite (totalIncome_js r) \<and> is_finite (section44adaIncome_js r) \<and>
      is_finite (regularTaxableIncome_js r) \<and> is_finite (section44adaTax_js r) \<and>
      is_finite (regularTax_js r) \<and> is_finite (savings_js r) \<and>
      list_all is_finite (map amount_js (advanceTaxSchedule_js r)))"

text \<open>The values of the first reading, seen as values of the second.\<close>

definition payment_js :: "AdvanceTaxPayment \<Rightarrow> AdvanceTaxPayment_js" where
  "payment_js p =
     \<lparr>quarter_js = Fin (quarter p), percentage_js = Fin (percentage p),
      amount_js = Fin (amount p), dueDate_js = dueDate p, description_js = description p\<rparr>"

definition result_js :: "TaxCalculationResult \<Rightarrow> TaxCalculationResult_js" where
  "result_js r =
     \<lparr>totalIncome_js = Fin (totalIncome r),
      section44adaIncome_js = Fin (section44adaIncome r),
      regularTaxableIncome_js = Fin (regularTaxableIncome r),
      section44adaTax_js = Fin (section44adaTax r),
      regularTax_js = Fin (regularTax r),
      recommendedScheme_js = recommendedScheme r,
      savings_js = Fin (savings r),
      advanceTaxSchedule_js = map payment_js (advanceTaxSchedule r)\<rparr>"

fun limit_js :: "limit \<Rightarrow> jsnum" where
  "limit_js (Finite m) = Fin m"
| "limit_js Infinity = PInf"

definition slab_js :: "TaxSlabs \<Rightarrow> TaxSlabs_js" where
  "slab_js s = \<lparr>min_js = Fin (min_slab s), max_js = limit_js (max_slab s), rate_js = Fin (rate s)\<rparr>"

text \<open>A tax as the second reading computes it: a finite number from 0 up, or \<open>Infinity\<close>.\<close>

fun nonneg_js :: "jsnum \<Rightarrow> bool" where
  "nonneg_js (Fin a) = (0 \<le> a \<and> a < overflow_bound)"
| "nonneg_js PInf = True"
| "nonneg_js x = False"

section \<open>Evaluating the progressive tax\<close>

lemma Math_round_of_int [simp]: "Math_round (of_int k) = of_int k"
proof -
  have "\<lfloor>(of_int k :: rat) + 1 / 2\<rfloor> = k"
    by linarith
  then show ?thesis
    by (simp add: Math_round_def)
qed

lemma Math_round_numeral [simp]: "Math_round (numeral n) = numeral n"
  using Math_round_of_int [of "numeral n"] by simp

lemma Math_round_0 [simp]: "Math_round 0 = 0"
  using Math_round_of_int [of 0] by simp

lemma Math_round_neg_numeral [simp]: "Math_round (- numeral n) = - numeral n"
  using Math_round_of_int [of "- numeral n"] by simp

lemma slab_loop_taxSlabs:
  "slab_loop x taxSlabs 0 =
     (if x > 0 then (min x 300000 - 0) * 0 / 100 else 0) +
     (if x > 300000 then (min x 700000 - 300000) * 5 / 100 else 0) +
     (if x > 700000 then (min x 1000000 - 700000) * 10 / 100 else 0) +
     (if x > 1000000 then (min x 1200000 - 1000000) * 15 / 100 else 0) +
     (if x > 1200000 then (min x 1500000 - 1200000) * 20 / 100 else 0) +
     (if x > 1500000 then (x - 1500000) * 30 / 100 else 0)"
  by (simp add: taxSlabs_def Let_def)

text \<open>
  C6. At the slab boundaries the progressive tax is exact: a taxable income of 300000
  owes nothing, and 700000 owes 400000 at 5 percent plus the cess, 20800.
\<close>

theorem slab_boundary_exact:
  "calculateIncomeTax 300000 = 0 \<and> calculateIncomeTax 700000 = 20800"
  by (simp add: calculateIncomeTax_def slab_loop_taxSlabs)

section \<open>The progressive tax never decreases\<close>

lemma Math_round_mono: "x \<le> y \<Longrightarrow> Math_round x \<le> Math_round y"
  by (simp add: Math_round_def floor_mono)

lemma Math_round_eqI:
  "of_int k \<le> x + 1 / 2 \<Longrightarrow> x + 1 / 2 < of_int k + 1 \<Longrightarrow> Math_round x = of_int k"
  by (simp add: Math_round_def floor_unique)

lemma Math_round_bounds: "a - 1 / 2 < Math_round a \<and> Math_round a \<le> a + 1 / 2"
proof -
  have "of_int \<lfloor>a + 1 / 2\<rfloor> \<le> a + 1 / 2" "a + 1 / 2 < of_int \<lfloor>a + 1 / 2\<rfloor> + 1"
    by linarith+
  then show ?thesis
    by (simp add: Math_round_def)
qed

lemma Math_round_nonneg: "0 \<le> a \<Longrightarrow> 0 \<le> Math_round a"
  by (simp add: Math_round_def)

lemma slab_loop_sum: "slab_loop x slabs tax = tax + (\<Sum>s\<leftarrow>slabs. slab_part x s)"
  by (induction slabs arbitrary: tax) (simp_all add: slab_part_def Let_def)

lemma slab_part_mono:
  assumes r: "0 \<le> rate s"
    and w: "case max_slab s of Finite m \<Rightarrow> min_slab s \<le> m | Infinity \<Rightarrow> True"
    and ab: "a \<le> b"
  shows "slab_part a s \<le> slab_part b s"
proof (cases "a > min_slab s")
  case True
  with ab have b: "b > min_slab s" by simp
  have "Math_min a (max_slab s) \<le> Math_min b (max_slab s)"
    using ab by (cases "max_slab s") simp_all
  then have "(Math_min a (max_slab s) - min_slab s) * rate s \<le> (Math_min b (max_slab s) - min_slab s) * rate s"
    using r by (simp add: mult_right_mono)
  then show ?thesis
    using True b by (simp add: slab_part_def divide_right_mono)
next
  case False
  have "0 \<le> slab_part b s"
  proof (cases "b > min_slab s")
    case True
    have "min_slab s \<le> Math_min b (max_slab s)"
      using True w by (cases "max_slab s") simp_all
    then show ?thesis
      using True r by (simp add: slab_part_def)
  next
    case False
    then show ?thesis by (simp add: slab_part_def)
  qed
  with False show ?thesis by (simp add: slab_part_def)
qed

lemma slab_sum_mono:
  assumes "\<forall>s \<in> set slabs. 0 \<le> rate s \<and> (case max_slab s of Finite m \<Rightarrow> min_slab s \<le> m | Infinity \<Rightarrow> True)"
    and "a \<le> b"
  shows "(\<Sum>s\<leftarrow>slabs. slab_part a s) \<le> (\<Sum>s\<leftarrow>slabs. slab_part b s)"
  using assms by (intro sum_list_mono) (simp add: slab_part_mono)

lemma taxSlabs_well_formed:
  "\<forall>s \<in> set taxSlabs. 0 \<le> rate s \<and> (case max_slab s of Finite m \<Rightarrow> min_slab s \<le> m | Infinity \<Rightarrow> True)"
  by (simp add: taxSlabs_def)

lemma calculateIncomeTax_mono: "a \<le> b \<Longrightarrow> calculateIncomeTax a \<le> calculateIncomeTax b"
  unfolding calculateIncomeTax_def Let_def slab_loop_sum
  by (intro Math_round_mono mult_right_mono) (simp_all add: slab_sum_mono [OF taxSlabs_well_formed])

text \<open>
  C4. The progressive income tax is monotone: of two taxable incomes \<open>0 \<le> a \<le> b\<close> the
  larger never owes less.
\<close>

theorem income_tax_monotone:
  "0 \<le> a \<Longrightarrow> a \<le> b \<Longrightarrow> calculateIncomeTax a \<le> calculateIncomeTax b"
  by (rule calculateIncomeTax_mono)

text \<open>
  The monotonicity theorem at the two taxable incomes of the worked example.
\<close>

theorem income_tax_monotone_witness:
  "(0::rat) \<le> 450000 \<and> (450000::rat) \<le> 850000 \<and> calculateIncomeTax 450000 \<le> calculateIncomeTax 850000"
  using income_tax_monotone [of 450000 850000] by simp

text \<open>
  The rounded tax is a whole number and never negative, whatever the taxable income.
\<close>

lemma calculateIncomeTax_whole: "\<exists>k\<ge>0. calculateIncomeTax x = of_int k"
proof -
  have "calculateIncomeTax (min x 0) = 0"
    by (simp add: calculateIncomeTax_def slab_loop_taxSlabs min_def)
  moreover have "calculateIncomeTax (min x 0) \<le> calculateIncomeTax x"
    by (rule calculateIncomeTax_mono) simp
  ultimately have "0 \<le> calculateIncomeTax x" by simp
  then have "0 \<le> \<lfloor>slab_loop x taxSlabs 0 * 1.04 + 1 / 2\<rfloor>"
    by (simp add: calculateIncomeTax_def Math_round_def Let_def)
  then show ?thesis
    by (auto simp add: calculateIncomeTax_def Math_round_def Let_def)
qed

lemma calculateIncomeTax_nonneg: "0 \<le> calculateIncomeTax x"
proof -
  obtain k where "0 \<le> k" and "calculateIncomeTax x = of_int k"
    using calculateIncomeTax_whole [of x] by blast
  then show ?thesis by simp
qed

section \<open>The comparison of the two schemes\<close>

lemma sel_section44adaIncome:
  "section44adaIncome (calculateTax now t h) = t * 0.5"
  by (simp add: calculateTax_def Let_def)

lemma sel_section44adaTax:
  "section44adaTax (calculateTax now t h) = calculateIncomeTax (section44adaTaxableIncome t)"
  by (simp add: calculateTax_def section44adaTaxableIncome_def Let_def)

lemma sel_regularTax:
  "regularTax (calculateTax now t h) = calculateIncomeTax (regularTaxableIncome_of t h)"
  by (simp add: calculateTax_def regularTaxableIncome_of_def Let_def)

lemma sel_regularTaxableIncome:
  "regularTaxableIncome (calculateTax now t h) = regularTaxableIncome_of t h"
  by (simp add: calculateTax_def regularTaxableIncome_of_def Let_def)

lemma sel_recommendedScheme:
  "recommendedScheme (calculateTax now t h) =
     (if section44adaTax (calculateTax now t h) \<le> regularTax (calculateTax now t h)
      then Section44ada else Regular)"
  by (simp add: calculateTax_def Let_def)

lemma sel_savings:
  "savings (calculateTax now t h) =
     \<bar>section44adaTax (calculateTax now t h) - regularTax (calculateTax now t h)\<bar>"
  by (simp add: calculateTax_def Let_def)

lemma sel_advanceTaxSchedule:
  "advanceTaxSchedule (calculateTax now t h) =
     calculateAdvanceTaxSchedule now
       (if section44adaTax (calculateTax now t h) \<le> regularTax (calculateTax now t h)
        then section44adaTax (calculateTax now t h) else regularTax (calculateTax now t h))"
  by (simp add: calculateTax_def Let_def)

lemma calculateTax_unfold:
  "calculateTax now t h =
     \<lparr>totalIncome = t,
      section44adaIncome = t * 0.5,
      regularTaxableIncome = regularTaxableIncome_of t h,
      section44adaTax = calculateIncomeTax (section44adaTaxableIncome t),
      regularTax = calculateIncomeTax (regularTaxableIncome_of t h),
      recommendedScheme =
        (if calculateIncomeTax (section44adaTaxableIncome t) \<le> calculateIncomeTax (regularTaxableIncome_of t h)
         then Section44ada else Regular),
      savings = \<bar>calculateIncomeTax (section44adaTaxableIncome t) - calculateIncomeTax (regularTaxableIncome_of t h)\<bar>,
      advanceTaxSchedule = calculateAdvanceTaxSchedule now
        (if calculateIncomeTax (section44adaTaxableIncome t) \<le> calculateIncomeTax (regularTaxableIncome_of t h)
         then calculateIncomeTax (section44adaTaxableIncome t)
         else calculateIncomeTax (regularTaxableIncome_of t h))\<rparr>"
  by (simp add: calculateTax_def section44adaTaxableIncome_def regularTaxableIncome_of_def Let_def)

lemma taxable_values:
  "section44adaTaxableIncome 1000000 = 450000"
  "regularTaxableIncome_of 1000000 False = 850000"
  "section44adaTaxableIncome 0 = 0"
  "regularTaxableIncome_of 0 h = 0"
  by (simp_all add: section44adaTaxableIncome_def regularTaxableIncome_of_def Let_def
      standardDeduction_def healthInsuranceDeduction_def)

lemma income_tax_values:
  "calculateIncomeTax 0 = 0"
  "calculateIncomeTax 450000 = 7800"
  "calculateIncomeTax 850000 = 36400"
  by (simp_all add: calculateIncomeTax_def slab_loop_taxSlabs)

lemma taxable_negative:
  assumes "t < 0"
  shows "section44adaTaxableIncome t = 0" and "regularTaxableIncome_of t h = 0"
  using assms
  by (simp_all add: section44adaTaxableIncome_def regularTaxableIncome_of_def Let_def
      standardDeduction_def healthInsuranceDeduction_def max_def)

lemma taxable_44ada_le_regular:
  "0 \<le> t \<Longrightarrow> section44adaTaxableIncome t \<le> regularTaxableIncome_of t h"
  by (simp add: section44adaTaxableIncome_def regularTaxableIncome_of_def Let_def
      standardDeduction_def healthInsuranceDeduction_def max_def)

text \<open>
  C2. For an income that is not negative, the taxable income under Section 44ADA never
  exceeds the regular taxable income, so the 44ADA tax never exceeds the regular tax and
  the recommendation is always Section 44ADA: the other branch is not reached.
\<close>

theorem presumptive_always_recommended:
  assumes "0 \<le> t"
  shows "section44adaTaxableIncome t \<le> regularTaxableIncome_of t h \<and>
         section44adaTax (calculateTax now t h) \<le> regularTax (calculateTax now t h) \<and>
         recommendedScheme (calculateTax now t h) = Section44ada"
proof -
  have le: "section44adaTaxableIncome t \<le> regularTaxableIncome_of t h"
    using assms by (rule taxable_44ada_le_regular)
  then have "section44adaTax (calculateTax now t h) \<le> regularTax (calculateTax now t h)"
    by (simp add: sel_section44adaTax sel_regularTax calculateIncomeTax_mono)
  with le show ?thesis
    by (simp add: sel_recommendedScheme)
qed

text \<open>
  An income of 50000 with health insurance: the regular taxable income is clamped to 0
  and the recommendation is still Section 44ADA.
\<close>

theorem presumptive_always_recommended_witness:
  "(0::rat) \<le> 50000 \<and>
   section44adaTaxableIncome 50000 \<le> regularTaxableIncome_of 50000 True \<and>
   recommendedScheme (calculateTax \<lparr>getFullYear = 2026, getMonth = 10\<rparr> 50000 True) = Section44ada"
  using presumptive_always_recommended [of 50000 True "\<lparr>getFullYear = 2026, getMonth = 10\<rparr>"] by simp

text \<open>
  C7. An income of 0 gives both taxes 0, the recommendation Section 44ADA and savings 0,
  with or without health insurance.
\<close>

theorem zero_income:
  "section44adaTax (calculateTax now 0 h) = 0 \<and>
   regularTax (calculateTax now 0 h) = 0 \<and>
   recommendedScheme (calculateTax now 0 h) = Section44ada \<and>
   savings (calculateTax now 0 h) = 0"
  by (simp add: sel_section44adaTax sel_regularTax sel_recommendedScheme sel_savings
      taxable_values income_tax_values)

text \<open>
  C1, as the specification words it: for an income of 1000000 without health insurance the
  four figures 5200, 36400, Section 44ADA and 31200. The code does not return them: the
  taxable income 450000 lies 150000, not 100000, above the slab bound 300000.
\<close>

theorem one_million_counterexample:
  "\<not> (section44adaTax (calculateTax \<lparr>getFullYear = 2026, getMonth = 10\<rparr> 1000000 False) = 5200 \<and>
      regularTax (calculateTax \<lparr>getFullYear = 2026, getMonth = 10\<rparr> 1000000 False) = 36400 \<and>
      recommendedScheme (calculateTax \<lparr>getFullYear = 2026, getMonth = 10\<rparr> 1000000 False) = Section44ada \<and>
      savings (calculateTax \<lparr>getFullYear = 2026, getMonth = 10\<rparr> 1000000 False) = 31200)"
  by (simp add: sel_section44adaTax taxable_values income_tax_values)

text \<open>
  C1, amended. For an income of 1000000 without health insurance the presumptive income
  is 500000 and the taxable income 450000, so the 44ADA tax is 150000 at 5 percent plus
  the cess, 7800; the regular taxable income is 850000 and the regular tax 36400; the
  recommendation is Section 44ADA and the savings are 28600.
\<close>

theorem one_million_example:
  "section44adaIncome (calculateTax now 1000000 False) = 500000 \<and>
   section44adaTaxableIncome 1000000 = 450000 \<and>
   section44adaTax (calculateTax now 1000000 False) = 7800 \<and>
   regularTaxableIncome (calculateTax now 1000000 False) = 850000 \<and>
   regularTax (calculateTax now 1000000 False) = 36400 \<and>
   recommendedScheme (calculateTax now 1000000 False) = Section44ada \<and>
   savings (calculateTax now 1000000 False) = 28600"
  by (simp add: sel_section44adaIncome sel_section44adaTax sel_regularTax sel_regularTaxableIncome
      sel_recommendedScheme sel_savings taxable_values income_tax_values)

section \<open>The advance tax schedule\<close>

lemma schedule_amounts:
  "map amount (calculateAdvanceTaxSchedule now x) =
     [Math_round (x * 0.15), Math_round (x * 0.45), Math_round (x * 0.75), x]"
  by (simp add: calculateAdvanceTaxSchedule_def Let_def)

lemma schedule_quarters:
  "map quarter (calculateAdvanceTaxSchedule now x) = [1, 2, 3, 4]"
  "map percentage (calculateAdvanceTaxSchedule now x) = [15, 45, 75, 100]"
  by (simp_all add: calculateAdvanceTaxSchedule_def Let_def)

lemma schedule_last:
  "amount (calculateAdvanceTaxSchedule now x ! 3) = x"
  by (simp add: calculateAdvanceTaxSchedule_def Let_def)

lemma schedule_sorted_general:
  assumes x: "0 \<le> x" and d: "x < 2 / 3 \<or> 1 \<le> x"
  shows "sorted (map amount (calculateAdvanceTaxSchedule now x))"
proof -
  have a: "Math_round (x * 0.15) \<le> Math_round (x * 0.45)"
    using x by (intro Math_round_mono) simp
  have b: "Math_round (x * 0.45) \<le> Math_round (x * 0.75)"
    using x by (intro Math_round_mono) simp
  have last: "Math_round (x * 0.75) \<le> x"
  proof -
    consider "x < 2 / 3" | "1 \<le> x" "x < 2" | "2 \<le> x"
      using d by linarith
    then show ?thesis
    proof cases
      case 1
      then have "Math_round (x * 0.75) = of_int 0"
        using x by (intro Math_round_eqI) simp_all
      with x show ?thesis by simp
    next
      case 2
      then have "Math_round (x * 0.75) = of_int 1"
        by (intro Math_round_eqI) simp_all
      with 2 show ?thesis by simp
    next
      case 3
      have "Math_round (x * 0.75) \<le> x * 0.75 + 1 / 2"
        using Math_round_bounds [of "x * 0.75"] by simp
      with 3 show ?thesis by simp
    qed
  qed
  show ?thesis
    using a b last by (simp add: schedule_amounts)
qed

lemma schedule_sorted_whole:
  assumes "0 \<le> k"
  shows "sorted (map amount (calculateAdvanceTaxSchedule now (of_int k)))"
proof (rule schedule_sorted_general)
  show "0 \<le> (of_int k :: rat)" using assms by simp
  have "k = 0 \<or> 1 \<le> k" using assms by linarith
  then show "(of_int k :: rat) < 2 / 3 \<or> 1 \<le> (of_int k :: rat)"
    by auto
qed

lemma calculateTax_schedule_sorted:
  "sorted (map amount (advanceTaxSchedule (calculateTax now t h)))"
proof -
  obtain k where "0 \<le> k" "section44adaTax (calculateTax now t h) = of_int k"
    using calculateIncomeTax_whole [of "section44adaTaxableIncome t"]
    by (auto simp add: sel_section44adaTax)
  moreover obtain j where "0 \<le> j" "regularTax (calculateTax now t h) = of_int j"
    using calculateIncomeTax_whole [of "regularTaxableIncome_of t h"]
    by (auto simp add: sel_regularTax)
  ultimately show ?thesis
    by (simp add: sel_advanceTaxSchedule schedule_sorted_whole del: of_int_le_iff)
qed

lemma sel_schedule_last:
  "amount (advanceTaxSchedule (calculateTax now t h) ! 3) =
     min (section44adaTax (calculateTax now t h)) (regularTax (calculateTax now t h))"
  by (simp add: sel_advanceTaxSchedule schedule_last min_def)

text \<open>
  C5. For every annual tax amount that is not negative and not a fraction from 2/3 up to
  1 - so for every whole amount, and for every amount from 1 up - the schedule has four
  payments, quarters 1 to 4 with the percentages 15, 45, 75 and 100, the amounts never
  decrease and the fourth is the annual tax itself; for 36400 the amounts are 5460, 16380,
  27300 and 36400. The scheduler is private and is only ever passed the final tax of
  \<open>calculateTax\<close>, a rounded amount: in every result of \<open>calculateTax\<close> the amounts
  never decrease and the fourth is the lower of the two taxes.
\<close>

theorem advance_schedule_invariant:
  assumes "0 \<le> annualTax" and "annualTax < 2 / 3 \<or> 1 \<le> annualTax"
  shows "length (calculateAdvanceTaxSchedule now annualTax) = 4 \<and>
         map quarter (calculateAdvanceTaxSchedule now annualTax) = [1, 2, 3, 4] \<and>
         map percentage (calculateAdvanceTaxSchedule now annualTax) = [15, 45, 75, 100] \<and>
         sorted (map amount (calculateAdvanceTaxSchedule now annualTax)) \<and>
         amount (calculateAdvanceTaxSchedule now annualTax ! 3) = annualTax \<and>
         map amount (calculateAdvanceTaxSchedule now 36400) = [5460, 16380, 27300, 36400] \<and>
         sorted (map amount (advanceTaxSchedule (calculateTax now t h))) \<and>
         amount (advanceTaxSchedule (calculateTax now t h) ! 3) =
           min (section44adaTax (calculateTax now t h)) (regularTax (calculateTax now t h))"
proof -
  have "length (calculateAdvanceTaxSchedule now annualTax) = 4"
    by (simp add: calculateAdvanceTaxSchedule_def Let_def)
  moreover have "map amount (calculateAdvanceTaxSchedule now 36400) = [5460, 16380, 27300, 36400]"
    by (simp add: schedule_amounts)
  moreover have "sorted (map amount (calculateAdvanceTaxSchedule now annualTax))"
    using assms by (rule schedule_sorted_general)
  ultimately show ?thesis
    by (simp add: schedule_quarters schedule_last calculateTax_schedule_sorted sel_schedule_last)
qed

text \<open>
  The schedule of the tax 7800.
\<close>

theorem advance_schedule_invariant_witness:
  "(0::rat) \<le> 7800 \<and> ((7800::rat) < 2 / 3 \<or> (1::rat) \<le> 7800) \<and>
   sorted (map amount (calculateAdvanceTaxSchedule \<lparr>getFullYear = 2026, getMonth = 10\<rparr> 7800)) \<and>
   amount (calculateAdvanceTaxSchedule \<lparr>getFullYear = 2026, getMonth = 10\<rparr> 7800 ! 3) = 7800"
  using advance_schedule_invariant [of 7800 "\<lparr>getFullYear = 2026, getMonth = 10\<rparr>"] by simp

text \<open>
  Why fractions from 2/3 up to 1 are left out: for 7/10, an amount the scheduler is never
  passed, the third amount is rounded up to 1 and exceeds the fourth.
\<close>

lemma schedule_fraction_unsorted:
  "(0::rat) \<le> 7 / 10 \<and>
   map amount (calculateAdvanceTaxSchedule \<lparr>getFullYear = 2026, getMonth = 10\<rparr> (7 / 10)) = [0, 0, 1, 7 / 10] \<and>
   \<not> sorted (map amount (calculateAdvanceTaxSchedule \<lparr>getFullYear = 2026, getMonth = 10\<rparr> (7 / 10)))"
proof -
  have q1: "Math_round (7 / 10 * 0.15) = 0"
    using Math_round_eqI [of 0 "7 / 10 * 0.15"] by simp
  have q2: "Math_round (7 / 10 * 0.45) = 0"
    using Math_round_eqI [of 0 "7 / 10 * 0.45"] by simp
  have q3: "Math_round (7 / 10 * 0.75) = 1"
    using Math_round_eqI [of 1 "7 / 10 * 0.75"] by simp
  have amounts:
    "map amount (calculateAdvanceTaxSchedule \<lparr>getFullYear = 2026, getMonth = 10\<rparr> (7 / 10)) = [0, 0, 1, 7 / 10]"
    unfolding schedule_amounts q1 q2 q3 by (rule refl)
  have unsorted: "\<not> sorted [0, 0, 1, 7 / 10 :: rat]"
  proof
    assume "sorted [0, 0, 1, 7 / 10 :: rat]"
    then have "(1::rat) \<le> 7 / 10"
      by (simp only: sorted_wrt.simps list.set ball_simps insert_iff empty_iff simp_thms)
    then show False by simp
  qed
  have "(0::rat) \<le> 7 / 10" by simp
  with amounts unsorted show ?thesis
    by (simp only: simp_thms)
qed

section \<open>GST\<close>

text \<open>
  C10. The GST on an amount is the rounded product of amount and rate over 100, for every
  amount and every rate, no rate being refused (150 percent and -5 percent are computed
  like any other); 18 percent on 25000 is 4500.
\<close>

theorem gst_rounded:
  "calculateGST a r = Math_round (a * r / 100) \<and>
   calculateGST 25000 18 = 4500 \<and>
   calculateGST 1000 150 = 1500 \<and>
   calculateGST 1000 (- 5) = - 50"
  by (simp add: calculateGST_def)

section \<open>The financial year\<close>

lemma string_of_nat_nonempty: "string_of_nat n \<noteq> []"
  by (subst string_of_nat.simps) simp

lemma last_string_of_nat: "last (string_of_nat n) = digit (n mod 10)"
  by (subst string_of_nat.simps) simp

lemma drop_to_last:
  assumes "xs \<noteq> []"
  shows "drop (length xs - Suc 0) xs = [last xs]"
proof -
  obtain ys y where "xs = ys @ [y]"
    using assms by (cases xs rule: rev_cases) simp_all
  then show ?thesis by simp
qed

lemma last_two_digits:
  fixes n :: nat
  shows "n mod 100 div 10 = n div 10 mod 10" and "n mod 100 mod 10 = n mod 10"
proof -
  have "n mod (10 * 10) = 10 * (n div 10 mod 10) + n mod 10"
    by (rule mod_mult2_eq)
  then show "n mod 100 div 10 = n div 10 mod 10"
    by simp
  show "n mod 100 mod 10 = n mod 10"
    by (simp add: mod_mod_cancel)
qed

lemma slice_last2_snoc: "xs \<noteq> [] \<Longrightarrow> slice_last2 (xs @ [c]) = [last xs, c]"
  by (simp add: slice_last2_def drop_to_last)

lemma slice_last2_string_of_nat:
  assumes "10 \<le> n"
  shows "slice_last2 (string_of_nat n) = [digit (n div 10 mod 10), digit (n mod 10)]"
proof -
  have "string_of_nat n = string_of_nat (n div 10) @ [digit (n mod 10)]"
    using assms by (subst string_of_nat.simps) simp
  then show ?thesis
    by (simp add: slice_last2_snoc string_of_nat_nonempty last_string_of_nat)
qed

lemma slice_last2_toString:
  assumes "10 \<le> y"
  shows "slice_last2 (toString y) = two_digits (y mod 100)"
proof -
  have n: "10 \<le> nat y" using assms by simp
  have m: "nat (y mod 100) = nat y mod 100"
    using assms by (simp add: nat_mod_distrib)
  show ?thesis
    using assms
    by (simp add: toString_def two_digits_def m last_two_digits slice_last2_string_of_nat [OF n])
qed

text \<open>
  C9, as the specification words it: the year, a hyphen and the number \<open>(Y + 1) mod 100\<close>.
  In April 2099 the code returns the label with two digits after the hyphen, 2099-00, and
  not 2099-0.
\<close>

theorem financial_year_counterexample:
  "getCurrentFinancialYear \<lparr>getFullYear = 2099, getMonth = 3\<rparr> = ''2099-00'' \<and>
   financialYear_spec 2099 (3 + 1) = ''2099-0'' \<and>
   getCurrentFinancialYear \<lparr>getFullYear = 2099, getMonth = 3\<rparr> \<noteq> financialYear_spec 2099 (3 + 1)"
  by (simp add: getCurrentFinancialYear_def financialYear_spec_def toString_def slice_last2_def
      digit_def string_of_nat.simps)

text \<open>
  C9, amended. For a current date in calendar year \<open>Y \<ge> 10\<close>, from April on the label
  is \<open>Y\<close>, a hyphen and \<open>(Y + 1) mod 100\<close> written with two digits; from January to
  March it is \<open>Y - 1\<close>, a hyphen and \<open>Y mod 100\<close> written with two digits.
\<close>

theorem financial_year_two_digits:
  assumes "10 \<le> getFullYear now"
  shows "getCurrentFinancialYear now =
     (if getMonth now + 1 \<ge> 4
      then toString (getFullYear now) @ ''-'' @ two_digits ((getFullYear now + 1) mod 100)
      else toString (getFullYear now - 1) @ ''-'' @ two_digits (getFullYear now mod 100))"
  using assms by (simp add: getCurrentFinancialYear_def Let_def slice_last2_toString)

text \<open>
  April 2099 and February 2026.
\<close>

theorem financial_year_two_digits_witness:
  "(10::int) \<le> 2099 \<and> (10::int) \<le> 2026 \<and>
   getCurrentFinancialYear \<lparr>getFullYear = 2099, getMonth = 3\<rparr> = ''2099-00'' \<and>
   getCurrentFinancialYear \<lparr>getFullYear = 2026, getMonth = 1\<rparr> = ''2025-26''"
  using financial_year_two_digits [of "\<lparr>getFullYear = 2099, getMonth = 3\<rparr>"]
    financial_year_two_digits [of "\<lparr>getFullYear = 2026, getMonth = 1\<rparr>"]
  by (simp add: toString_def two_digits_def digit_def string_of_nat.simps)

section \<open>Overflow: what a tax can be\<close>

lemma bound_facts:
  "0 < income_bound" "100000000 \<le> income_bound" "100 * income_bound < overflow_bound"
  "0 < overflow_bound"
  by (simp_all add: income_bound_def overflow_bound_def)

lemma taxSlabs_js_map: "taxSlabs_js = map slab_js taxSlabs"
  by (simp add: taxSlabs_js_def taxSlabs_def slab_js_def)

lemma overflow_Fin: "- overflow_bound < q \<Longrightarrow> q < overflow_bound \<Longrightarrow> overflow q = Fin q"
  by (simp add: overflow_def)

lemma nonneg_overflow: "0 \<le> q \<Longrightarrow> nonneg_js (overflow q)"
  using bound_facts(4) by (simp add: overflow_def)

lemma nonneg_add: "nonneg_js a \<Longrightarrow> nonneg_js b \<Longrightarrow> nonneg_js (js_add a b)"
  by (cases a; cases b) (simp_all add: nonneg_overflow)

lemma nonneg_mul: "nonneg_js a \<Longrightarrow> 0 < r \<Longrightarrow> nonneg_js (js_mul a (Fin r))"
  by (cases a) (simp_all add: nonneg_overflow)

lemma nonneg_mul_Fin: "0 \<le> a \<Longrightarrow> 0 \<le> r \<Longrightarrow> nonneg_js (js_mul (Fin a) (Fin r))"
  by (simp add: nonneg_overflow)

lemma nonneg_div: "nonneg_js a \<Longrightarrow> 0 < d \<Longrightarrow> nonneg_js (js_div a (Fin d))"
  by (cases a) (simp_all add: nonneg_overflow)

lemma nonneg_round: "nonneg_js a \<Longrightarrow> nonneg_js (Math_round_js a)"
  by (cases a) (simp_all add: nonneg_overflow Math_round_nonneg)

lemma slab_term_nonneg:
  assumes gt: "js_gt x (Fin lo)"
    and r: "0 \<le> r"
    and w: "case hi of Finite m \<Rightarrow> lo \<le> m \<and> m - lo < overflow_bound | Infinity \<Rightarrow> 0 < r"
  shows "nonneg_js (js_div (js_mul (js_sub (Math_min_js x (limit_js hi)) (Fin lo)) (Fin r)) (Fin 100))"
proof (cases hi)
  case (Finite m)
  with w have m: "lo \<le> m" "m - lo < overflow_bound" by simp_all
  have "\<exists>v. Math_min_js x (Fin m) = Fin v \<and> lo \<le> v \<and> v \<le> m"
  proof (cases x)
    case (Fin q)
    with gt m show ?thesis
      by (intro exI [of _ "min q m"]) (simp add: min_def)
  next
    case PInf
    with m show ?thesis
      by (intro exI [of _ m]) simp
  qed (use gt in simp_all)
  then obtain v where v: "Math_min_js x (Fin m) = Fin v" "lo \<le> v" "v \<le> m"
    by blast
  have "js_sub (Fin v) (Fin lo) = Fin (v - lo)"
    using v m bound_facts(4) by (simp add: js_sub_def overflow_Fin)
  moreover have "0 \<le> v - lo" using v by simp
  ultimately show ?thesis
    using Finite v r by (simp add: nonneg_div nonneg_mul_Fin del: js_mul.simps js_div.simps)
next
  case Infinity
  with w have r': "0 < r" by simp
  have "nonneg_js (js_sub x (Fin lo))"
    using gt by (cases x) (simp_all add: js_sub_def nonneg_overflow)
  moreover have "Math_min_js x PInf = x"
    using gt by (cases x) simp_all
  ultimately show ?thesis
    using Infinity r' by (simp add: nonneg_div nonneg_mul)
qed

lemma slab_loop_js_nonneg:
  assumes "\<forall>s \<in> set slabs. 0 \<le> rate s \<and>
             (case max_slab s of Finite m \<Rightarrow> min_slab s \<le> m \<and> m - min_slab s < overflow_bound
              | Infinity \<Rightarrow> 0 < rate s)"
    and "nonneg_js tax"
  shows "nonneg_js (slab_loop_js x (map slab_js slabs) tax)"
  using assms
proof (induction slabs arbitrary: tax)
  case Nil
  then show ?case by simp
next
  case (Cons s slabs)
  show ?case
  proof (cases "js_gt x (Fin (min_slab s))")
    case True
    have "nonneg_js (js_div (js_mul (js_sub (Math_min_js x (limit_js (max_slab s))) (Fin (min_slab s)))
                       (Fin (rate s))) (Fin 100))"
      using True Cons.prems(1) by (intro slab_term_nonneg) simp_all
    then have "nonneg_js (js_add tax (js_div (js_mul (js_sub (Math_min_js x (limit_js (max_slab s)))
                       (Fin (min_slab s))) (Fin (rate s))) (Fin 100)))"
      using Cons.prems(2) by (rule nonneg_add [rotated])
    then show ?thesis
      using True Cons.prems(1) Cons.IH by (simp add: slab_js_def Let_def)
  next
    case False
    then show ?thesis
      using Cons by (simp add: slab_js_def)
  qed
qed

lemma taxSlabs_in_range:
  "\<forall>s \<in> set taxSlabs. 0 \<le> rate s \<and>
     (case max_slab s of Finite m \<Rightarrow> min_slab s \<le> m \<and> m - min_slab s < overflow_bound
      | Infinity \<Rightarrow> 0 < rate s)"
  using bound_facts(2,3) bound_facts(1) by (simp add: taxSlabs_def)

text \<open>
  Whatever the taxable income - finite, infinite or \<open>NaN\<close> - the tax is a finite number
  from 0 up or \<open>Infinity\<close>; it is never negative and never \<open>NaN\<close>.
\<close>

lemma calculateIncomeTax_js_nonneg: "nonneg_js (calculateIncomeTax_js x)"
proof -
  have "nonneg_js (slab_loop_js x taxSlabs_js (Fin 0))"
    unfolding taxSlabs_js_map
    using taxSlabs_in_range bound_facts(4) by (intro slab_loop_js_nonneg) simp_all
  then show ?thesis
    by (simp add: calculateIncomeTax_js_def Let_def nonneg_round nonneg_mul)
qed

lemma savings_of_taxes:
  assumes "nonneg_js s" and "nonneg_js r"
  shows "\<not> (s = PInf \<and> r = PInf) \<Longrightarrow> js_le (Fin 0) (Math_abs_js (js_sub s r))"
    and "s = PInf \<and> r = PInf \<Longrightarrow> Math_abs_js (js_sub s r) = NaN"
  using assms by (cases s; cases r; simp add: js_sub_def overflow_Fin)+

section \<open>The two readings agree on incomes up to the bound\<close>

lemma Math_min_js_Fin: "Math_min_js (Fin x) (limit_js hi) = Fin (Math_min x hi)"
  by (cases hi) (simp_all add: min_def)

lemma Math_max_js_Fin: "Math_max_js (Fin a) (Fin b) = Fin (max a b)"
  by (simp add: max_def)

lemma slab_term_exact:
  assumes x: "x \<le> income_bound" "lo < x"
    and lo: "0 \<le> lo"
    and r: "0 \<le> r" "r \<le> 30"
    and w: "case hi of Finite m \<Rightarrow> lo \<le> m | Infinity \<Rightarrow> True"
  shows "js_div (js_mul (js_sub (Math_min_js (Fin x) (limit_js hi)) (Fin lo)) (Fin r)) (Fin 100) =
           Fin ((Math_min x hi - lo) * r / 100) \<and>
         0 \<le> (Math_min x hi - lo) * r / 100 \<and>
         (Math_min x hi - lo) * r / 100 \<le> income_bound"
proof -
  let ?a = "Math_min x hi - lo"
  have a: "0 \<le> ?a" "?a \<le> x"
    using x lo w by (cases hi; simp)+
  have ar: "0 \<le> ?a * r" using a r by simp
  have "?a * r \<le> x * 30"
    using a r x lo by (intro mult_mono) simp_all
  then have ar30: "?a * r \<le> 30 * income_bound" using x by simp
  have s1: "js_sub (Fin (Math_min x hi)) (Fin lo) = Fin ?a"
    using a x bound_facts by (simp add: js_sub_def overflow_Fin)
  have s2: "js_mul (Fin ?a) (Fin r) = Fin (?a * r)"
    using ar ar30 bound_facts by (simp add: overflow_Fin)
  have s3: "js_div (Fin (?a * r)) (Fin 100) = Fin (?a * r / 100)"
    using ar ar30 bound_facts by (simp add: overflow_Fin)
  have "?a * r / 100 \<le> income_bound"
    using ar30 bound_facts by simp
  moreover have "0 \<le> ?a * r / 100" using ar by simp
  ultimately show ?thesis
    by (simp only: Math_min_js_Fin s1 s2 s3 simp_thms)
qed

lemma slab_loop_js_exact:
  assumes x: "x \<le> income_bound"
    and slabs: "\<forall>s \<in> set slabs. 0 \<le> min_slab s \<and> 0 \<le> rate s \<and> rate s \<le> 30 \<and>
                 (case max_slab s of Finite m \<Rightarrow> min_slab s \<le> m | Infinity \<Rightarrow> True)"
    and tax: "0 \<le> tax" "tax + income_bound * of_nat (length slabs) \<le> 10 * income_bound"
  shows "slab_loop_js (Fin x) (map slab_js slabs) (Fin tax) = Fin (slab_loop x slabs tax) \<and>
         0 \<le> slab_loop x slabs tax \<and> slab_loop x slabs tax \<le> 10 * income_bound"
  using slabs tax
proof (induction slabs arbitrary: tax)
  case Nil
  then show ?case by simp
next
  case (Cons s slabs)
  have len: "income_bound * of_nat (length (s # slabs)) =
             income_bound * of_nat (length slabs) + income_bound"
    by (simp add: algebra_simps)
  have rest: "\<forall>s \<in> set slabs. 0 \<le> min_slab s \<and> 0 \<le> rate s \<and> rate s \<le> 30 \<and>
                 (case max_slab s of Finite m \<Rightarrow> min_slab s \<le> m | Infinity \<Rightarrow> True)"
    using Cons.prems(1) by simp
  show ?case
  proof (cases "min_slab s < x")
    case True
    let ?part = "(Math_min x (max_slab s) - min_slab s) * rate s / 100"
    have step: "js_div (js_mul (js_sub (Math_min_js (Fin x) (limit_js (max_slab s))) (Fin (min_slab s)))
                  (Fin (rate s))) (Fin 100) = Fin ?part"
      and tm: "0 \<le> ?part" "?part \<le> income_bound"
      using slab_term_exact [of x "min_slab s" "rate s" "max_slab s"] x True Cons.prems(1)
      by simp_all
    have tax': "0 \<le> tax + ?part"
      "tax + ?part + income_bound * of_nat (length slabs) \<le> 10 * income_bound"
      using tm Cons.prems(2,3) len by simp_all
    have "0 \<le> income_bound * of_nat (length slabs)"
      using bound_facts(1) by simp
    then have "tax + ?part < overflow_bound" "- overflow_bound < tax + ?part"
      using tax' bound_facts by linarith+
    then have add: "js_add (Fin tax) (Fin ?part) = Fin (tax + ?part)"
      by (simp add: overflow_Fin)
    show ?thesis
      using Cons.IH [OF rest tax'] True
      by (simp add: slab_js_def Let_def step add del: js_add.simps js_mul.simps js_div.simps)
  next
    case False
    have "0 \<le> tax" "tax + income_bound * of_nat (length slabs) \<le> 10 * income_bound"
      using Cons.prems(2,3) len bound_facts(1) by simp_all
    from Cons.IH [OF rest this] False show ?thesis
      by (simp add: slab_js_def)
  qed
qed

lemma taxSlabs_bounded:
  "\<forall>s \<in> set taxSlabs. 0 \<le> min_slab s \<and> 0 \<le> rate s \<and> rate s \<le> 30 \<and>
     (case max_slab s of Finite m \<Rightarrow> min_slab s \<le> m | Infinity \<Rightarrow> True)"
  by (simp add: taxSlabs_def)

lemma calculateIncomeTax_js_exact:
  assumes "x \<le> income_bound"
  shows "calculateIncomeTax_js (Fin x) = Fin (calculateIncomeTax x) \<and>
         calculateIncomeTax x \<le> 11 * income_bound"
proof -
  let ?tax = "slab_loop x taxSlabs 0"
  have "(0::rat) + income_bound * of_nat (length taxSlabs) \<le> 10 * income_bound"
    using bound_facts(1) by (simp add: taxSlabs_def)
  then have loop: "slab_loop_js (Fin x) taxSlabs_js (Fin 0) = Fin ?tax"
    and tax: "0 \<le> ?tax" "?tax \<le> 10 * income_bound"
    unfolding taxSlabs_js_map
    using slab_loop_js_exact [OF assms taxSlabs_bounded, of 0] by simp_all
  have cess: "js_mul (Fin ?tax) (Fin 1.04) = Fin (?tax * 1.04)"
    using tax bound_facts by (simp add: overflow_Fin)
  have rb: "?tax * 1.04 - 1 / 2 < Math_round (?tax * 1.04)"
    "Math_round (?tax * 1.04) \<le> ?tax * 1.04 + 1 / 2"
    using Math_round_bounds [of "?tax * 1.04"] by simp_all
  have top: "Math_round (?tax * 1.04) \<le> 11 * income_bound"
    using rb tax bound_facts by simp
  have "0 \<le> Math_round (?tax * 1.04)"
    using tax by (simp add: Math_round_nonneg)
  with top have round: "Math_round_js (Fin (?tax * 1.04)) = Fin (Math_round (?tax * 1.04))"
    using bound_facts by (simp add: overflow_Fin)
  have "calculateIncomeTax_js (Fin x) =
          Math_round_js (js_mul (slab_loop_js (Fin x) taxSlabs_js (Fin 0)) (Fin 1.04))"
    by (simp only: calculateIncomeTax_js_def Let_def)
  also have "\<dots> = Fin (Math_round (?tax * 1.04))"
    by (simp only: loop cess round)
  also have "\<dots> = Fin (calculateIncomeTax x)"
    by (simp only: calculateIncomeTax_def Let_def)
  finally show ?thesis
    using top by (simp only: calculateIncomeTax_def Let_def simp_thms)
qed

lemma round_part_exact:
  assumes "0 \<le> a" "a < overflow_bound" "0 \<le> c" "c \<le> 3 / 4"
  shows "Math_round_js (js_mul (Fin a) (Fin c)) = Fin (Math_round (a * c))"
proof -
  have "a * c \<le> a * (3 / 4)"
    using assms by (intro mult_left_mono) simp_all
  then have ac: "0 \<le> a * c" "a * c \<le> 3 / 4 * a"
    using assms by simp_all
  have "a * c < overflow_bound" "- overflow_bound < a * c"
    using ac assms(1,2) by linarith+
  then have m: "js_mul (Fin a) (Fin c) = Fin (a * c)"
    by (simp add: overflow_Fin)
  have "Math_round (a * c) \<le> a * c + 1 / 2"
    using Math_round_bounds [of "a * c"] by simp
  moreover have "0 \<le> Math_round (a * c)"
    using ac by (simp add: Math_round_nonneg)
  ultimately have "Math_round (a * c) < overflow_bound" "- overflow_bound < Math_round (a * c)"
    using ac assms(1,2) bound_facts by linarith+
  then have "Math_round_js (Fin (a * c)) = Fin (Math_round (a * c))"
    by (simp add: overflow_Fin)
  with m show ?thesis by (simp only:)
qed

lemma calculateAdvanceTaxSchedule_js_exact:
  assumes "0 \<le> a" "a < overflow_bound"
  shows "calculateAdvanceTaxSchedule_js now (Fin a) = map payment_js (calculateAdvanceTaxSchedule now a)"
  using round_part_exact [OF assms, of "0.15"] round_part_exact [OF assms, of "0.45"]
    round_part_exact [OF assms, of "0.75"]
  by (simp add: calculateAdvanceTaxSchedule_js_def calculateAdvanceTaxSchedule_def payment_js_def
      Let_def del: js_mul.simps Math_round_js.simps)

text \<open>
  For an income of magnitude at most \<open>10 ^ 306\<close> no operation overflows, and the result of
  the second reading is the result of the first.
\<close>

lemma calculateTax_js_unfold:
  assumes t: "\<bar>t\<bar> < overflow_bound"
  shows "calculateTax_js now (Fin t) h =
     (let section44adaTax = calculateIncomeTax_js (Fin (section44adaTaxableIncome t));
          regularTax = calculateIncomeTax_js (Fin (regularTaxableIncome_of t h))
      in \<lparr>totalIncome_js = Fin t, section44adaIncome_js = Fin (t * 0.5),
          regularTaxableIncome_js = Fin (regularTaxableIncome_of t h),
          section44adaTax_js = section44adaTax, regularTax_js = regularTax,
          recommendedScheme_js =
            (if js_le section44adaTax regularTax then Section44ada else Regular),
          savings_js = Math_abs_js (js_sub section44adaTax regularTax),
          advanceTaxSchedule_js =
            calculateAdvanceTaxSchedule_js now
              (if js_le section44adaTax regularTax then section44adaTax else regularTax)\<rparr>)"
proof -
  let ?x1 = "section44adaTaxableIncome t"
  let ?x2 = "regularTaxableIncome_of t h"
  let ?s = "calculateIncomeTax_js (Fin ?x1)"
  let ?r = "calculateIncomeTax_js (Fin ?x2)"
  let ?d = "if h then healthInsuranceDeduction else 0"
  note b = bound_facts
  have tb: "- overflow_bound < t" "t < overflow_bound"
    using t by linarith+
  have h1: "js_mul (Fin t) (Fin 0.5) = Fin (t * 0.5)"
    using tb by (simp add: overflow_Fin)
  have "js_sub (Fin (t * 0.5)) (Fin standardDeduction) = Fin (t * 0.5 - standardDeduction)"
    using tb b by (simp add: js_sub_def overflow_Fin standardDeduction_def)
  then have m1: "Math_max_js (Fin 0) (js_sub (Fin (t * 0.5)) (Fin standardDeduction)) = Fin ?x1"
    by (simp only: Math_max_js_Fin section44adaTaxableIncome_def Let_def)
  have h4: "js_mul (Fin t) (Fin 0.1) = Fin (t * 0.1)"
    using tb by (simp add: overflow_Fin)
  have h5: "js_sub (Fin t) (Fin (t * 0.1)) = Fin (t - t * 0.1)"
    using tb by (simp add: js_sub_def overflow_Fin)
  have h6: "js_sub (Fin (t - t * 0.1)) (Fin standardDeduction) = Fin (t - t * 0.1 - standardDeduction)"
    using tb b by (simp add: js_sub_def overflow_Fin standardDeduction_def)
  have h7: "js_sub (Fin (t - t * 0.1 - standardDeduction))
              (if h then Fin healthInsuranceDeduction else Fin 0) =
            Fin (t - t * 0.1 - standardDeduction - ?d)"
    using tb b
    by (simp add: js_sub_def overflow_Fin standardDeduction_def healthInsuranceDeduction_def)
  have m2: "Math_max_js (Fin 0) (Fin (t - t * 0.1 - standardDeduction - ?d)) = Fin ?x2"
    by (simp only: Math_max_js_Fin regularTaxableIncome_of_def Let_def)
  show ?thesis
  proof (cases "js_le ?s ?r")
    case True
    then show ?thesis
      by (simp only: calculateTax_js_def Let_def h1 m1 h4 h5 h6 h7 m2 if_True simp_thms)
  next
    case False
    then show ?thesis
      by (simp only: calculateTax_js_def Let_def h1 m1 h4 h5 h6 h7 m2 if_False scheme.distinct
          simp_thms)
  qed
qed

lemma calculateTax_js_exact:
  assumes t: "\<bar>t\<bar> \<le> income_bound"
  shows "calculateTax_js now (Fin t) h = result_js (calculateTax now t h)"
proof -
  let ?x1 = "section44adaTaxableIncome t"
  let ?x2 = "regularTaxableIncome_of t h"
  let ?a1 = "calculateIncomeTax ?x1"
  let ?a2 = "calculateIncomeTax ?x2"
  note b = bound_facts
  have tb: "- income_bound \<le> t" "t \<le> income_bound"
    using t by linarith+
  have x1: "?x1 \<le> income_bound"
    using tb b
    unfolding section44adaTaxableIncome_def Let_def standardDeduction_def max_def
    by (simp; arith)
  have x2: "?x2 \<le> income_bound"
    using tb b
    unfolding regularTaxableIncome_of_def Let_def standardDeduction_def
      healthInsuranceDeduction_def max_def
    by (simp; arith)
  have T1: "calculateIncomeTax_js (Fin ?x1) = Fin ?a1" and a1: "?a1 \<le> 11 * income_bound"
    using calculateIncomeTax_js_exact [OF x1] by simp_all
  have T2: "calculateIncomeTax_js (Fin ?x2) = Fin ?a2" and a2: "?a2 \<le> 11 * income_bound"
    using calculateIncomeTax_js_exact [OF x2] by simp_all
  have n1: "0 \<le> ?a1" and n2: "0 \<le> ?a2"
    by (rule calculateIncomeTax_nonneg)+
  have "?a1 - ?a2 < overflow_bound" "- overflow_bound < ?a1 - ?a2"
    using a1 a2 n1 n2 b by linarith+
  then have "js_sub (Fin ?a1) (Fin ?a2) = Fin (?a1 - ?a2)"
    by (simp add: js_sub_def overflow_Fin)
  then have sv: "Math_abs_js (js_sub (Fin ?a1) (Fin ?a2)) = Fin \<bar>?a1 - ?a2\<bar>"
    by simp
  have s1: "calculateAdvanceTaxSchedule_js now (Fin ?a1) =
              map payment_js (calculateAdvanceTaxSchedule now ?a1)"
    using n1 a1 b by (intro calculateAdvanceTaxSchedule_js_exact) linarith+
  have s2: "calculateAdvanceTaxSchedule_js now (Fin ?a2) =
              map payment_js (calculateAdvanceTaxSchedule now ?a2)"
    using n2 a2 b by (intro calculateAdvanceTaxSchedule_js_exact) linarith+
  have "\<bar>t\<bar> < overflow_bound"
    using tb b by linarith
  then show ?thesis
    by (simp add: calculateTax_js_unfold Let_def T1 T2 sv s1 s2 calculateTax_unfold result_js_def
        del: js_add.simps Math_abs_js.simps)
qed

lemma finite_result_js: "finite_result (result_js r)"
  by (simp add: finite_result_def result_js_def payment_js_def list_all_iff)

lemma calculateGST_js_exact:
  assumes "\<bar>a * r\<bar> < overflow_bound"
  shows "calculateGST_js (Fin a) (Fin r) = Fin (calculateGST a r)"
proof -
  note b = bound_facts
  have m: "js_mul (Fin a) (Fin r) = Fin (a * r)"
    using assms by (simp add: overflow_Fin)
  have "\<bar>a * r / 100\<bar> \<le> \<bar>a * r\<bar> / 100"
    by simp
  then have q: "\<bar>a * r / 100\<bar> < overflow_bound / 100"
    using assms by simp
  then have d: "js_div (Fin (a * r)) (Fin 100) = Fin (a * r / 100)"
    using b by (simp add: overflow_Fin)
  have "a * r / 100 - 1 / 2 < Math_round (a * r / 100)"
    "Math_round (a * r / 100) \<le> a * r / 100 + 1 / 2"
    using Math_round_bounds [of "a * r / 100"] by simp_all
  then have "Math_round (a * r / 100) < overflow_bound" "- overflow_bound < Math_round (a * r / 100)"
    using q b by linarith+
  then have "Math_round_js (Fin (a * r / 100)) = Fin (Math_round (a * r / 100))"
    by (simp add: overflow_Fin)
  then show ?thesis
    by (simp only: calculateGST_js_def calculateGST_def m d)
qed

lemma calculateIncomeTax_js_0: "calculateIncomeTax_js (Fin 0) = Fin 0"
  using calculateIncomeTax_js_exact [of 0] bound_facts(1) by (simp add: income_tax_values)

lemma calculateTax_js_negative:
  assumes t: "t < 0" "- overflow_bound < t"
  shows "calculateTax_js now (Fin t) h =
           \<lparr>totalIncome_js = Fin t, section44adaIncome_js = Fin (t * 0.5),
            regularTaxableIncome_js = Fin 0, section44adaTax_js = Fin 0,
            regularTax_js = Fin 0, recommendedScheme_js = Section44ada,
            savings_js = Fin 0,
            advanceTaxSchedule_js = calculateAdvanceTaxSchedule_js now (Fin 0)\<rparr>"
proof -
  have "\<bar>t\<bar> < overflow_bound"
    using t by linarith
  moreover have "Math_abs_js (js_sub (Fin 0) (Fin 0)) = Fin 0"
    using bound_facts(4) by (simp add: js_sub_def overflow_Fin)
  ultimately show ?thesis
    using t(1)
    by (simp add: calculateTax_js_unfold Let_def taxable_negative calculateIncomeTax_js_0
        del: js_add.simps Math_abs_js.simps)
qed

section \<open>Recommendation and savings on every number\<close>

lemma sel_taxes_js_nonneg:
  "nonneg_js (section44adaTax_js (calculateTax_js now T h))"
  "nonneg_js (regularTax_js (calculateTax_js now T h))"
  by (simp_all add: calculateTax_js_def Let_def calculateIncomeTax_js_nonneg)

lemma sel_recommendedScheme_js:
  "recommendedScheme_js (calculateTax_js now T h) =
     (if js_le (section44adaTax_js (calculateTax_js now T h))
               (regularTax_js (calculateTax_js now T h))
      then Section44ada else Regular)"
  by (simp add: calculateTax_js_def Let_def)

lemma sel_savings_js:
  "savings_js (calculateTax_js now T h) =
     Math_abs_js (js_sub (section44adaTax_js (calculateTax_js now T h))
                         (regularTax_js (calculateTax_js now T h)))"
  by (simp add: calculateTax_js_def Let_def)

lemma sel_advanceTaxSchedule_js:
  "advanceTaxSchedule_js (calculateTax_js now T h) =
     calculateAdvanceTaxSchedule_js now
       (if js_le (section44adaTax_js (calculateTax_js now T h))
                 (regularTax_js (calculateTax_js now T h))
        then section44adaTax_js (calculateTax_js now T h)
        else regularTax_js (calculateTax_js now T h))"
  by (simp add: calculateTax_js_def Let_def)

lemma calculateIncomeTax_js_overflows:
  assumes x: "1500000 < x" "x < overflow_bound" "overflow_bound \<le> (x - 1500000) * 30"
  shows "calculateIncomeTax_js (Fin x) = PInf"
  using x bound_facts
  by (simp add: calculateIncomeTax_js_def taxSlabs_js_def Let_def js_sub_def overflow_def)

lemma big_income_result:
  "calculateTax_js now (Fin (2 ^ 1023)) False =
     \<lparr>totalIncome_js = Fin (2 ^ 1023), section44adaIncome_js = Fin (2 ^ 1023 * 0.5),
      regularTaxableIncome_js = Fin (regularTaxableIncome_of (2 ^ 1023) False),
      section44adaTax_js = PInf, regularTax_js = PInf, recommendedScheme_js = Section44ada,
      savings_js = NaN, advanceTaxSchedule_js = calculateAdvanceTaxSchedule_js now PInf\<rparr>"
proof -
  have T: "\<bar>2 ^ 1023 :: rat\<bar> < overflow_bound"
    by (simp add: overflow_bound_def)
  have T1: "calculateIncomeTax_js (Fin (section44adaTaxableIncome (2 ^ 1023))) = PInf"
    by (rule calculateIncomeTax_js_overflows)
      (simp_all add: section44adaTaxableIncome_def Let_def overflow_bound_def standardDeduction_def)
  have T2: "calculateIncomeTax_js (Fin (regularTaxableIncome_of (2 ^ 1023) False)) = PInf"
    by (rule calculateIncomeTax_js_overflows)
      (simp_all add: regularTaxableIncome_of_def Let_def overflow_bound_def standardDeduction_def)
  have sv: "Math_abs_js (js_sub PInf PInf) = NaN"
    by (simp add: js_sub_def)
  have le: "js_le PInf PInf = True"
    by simp
  show ?thesis
    by (simp only: calculateTax_js_unfold [OF T] Let_def T1 T2 sv le if_True)
qed

text \<open>
  C3, as the specification words it, for every income: savings at least 0. For the income
  \<open>2 ^ 1023\<close>, a finite double, both taxes overflow to \<open>Infinity\<close> and the savings are
  \<open>Infinity - Infinity\<close>, that is \<open>NaN\<close>, which is not at least 0.
\<close>

theorem savings_overflow_counterexample:
  "section44adaTax_js (calculateTax_js \<lparr>getFullYear = 2026, getMonth = 10\<rparr> (Fin (2 ^ 1023)) False) = PInf \<and>
   regularTax_js (calculateTax_js \<lparr>getFullYear = 2026, getMonth = 10\<rparr> (Fin (2 ^ 1023)) False) = PInf \<and>
   savings_js (calculateTax_js \<lparr>getFullYear = 2026, getMonth = 10\<rparr> (Fin (2 ^ 1023)) False) = NaN \<and>
   \<not> js_le (Fin 0) (savings_js (calculateTax_js \<lparr>getFullYear = 2026, getMonth = 10\<rparr> (Fin (2 ^ 1023)) False))"
  unfolding big_income_result by simp

text \<open>
  C3, amended. For every income, finite or not, and either insurance flag, the recommended
  scheme is Section 44ADA exactly when its tax does not exceed the regular tax (a tie goes
  to 44ADA), and the savings are the absolute difference of the two taxes. The savings are
  at least 0 unless both taxes have overflowed to \<open>Infinity\<close>, and then they are \<open>NaN\<close>.
  For a finite income of magnitude at most \<open>10 ^ 306\<close> both taxes are finite and the
  savings are at least 0.
\<close>

theorem scheme_and_savings:
  "recommendedScheme_js (calculateTax_js now T h) =
     (if js_le (section44adaTax_js (calculateTax_js now T h))
               (regularTax_js (calculateTax_js now T h))
      then Section44ada else Regular) \<and>
   savings_js (calculateTax_js now T h) =
     Math_abs_js (js_sub (section44adaTax_js (calculateTax_js now T h))
                         (regularTax_js (calculateTax_js now T h))) \<and>
   (\<not> (section44adaTax_js (calculateTax_js now T h) = PInf \<and>
        regularTax_js (calculateTax_js now T h) = PInf) \<longrightarrow>
      js_le (Fin 0) (savings_js (calculateTax_js now T h))) \<and>
   (section44adaTax_js (calculateTax_js now T h) = PInf \<and>
    regularTax_js (calculateTax_js now T h) = PInf \<longrightarrow>
      savings_js (calculateTax_js now T h) = NaN) \<and>
   (\<bar>t\<bar> \<le> income_bound \<longrightarrow>
      is_finite (section44adaTax_js (calculateTax_js now (Fin t) h)) \<and>
      is_finite (regularTax_js (calculateTax_js now (Fin t) h)) \<and>
      js_le (Fin 0) (savings_js (calculateTax_js now (Fin t) h)))"
proof -
  let ?R = "calculateTax_js now T h"
  have a: "\<not> (section44adaTax_js ?R = PInf \<and> regularTax_js ?R = PInf) \<longrightarrow>
             js_le (Fin 0) (savings_js ?R)"
    unfolding sel_savings_js
    using savings_of_taxes(1) [OF sel_taxes_js_nonneg, of now T h now T h] by blast
  have b: "section44adaTax_js ?R = PInf \<and> regularTax_js ?R = PInf \<longrightarrow> savings_js ?R = NaN"
    unfolding sel_savings_js
    using savings_of_taxes(2) [OF sel_taxes_js_nonneg, of now T h now T h] by blast
  have c: "is_finite (section44adaTax_js (calculateTax_js now (Fin t) h)) \<and>
           is_finite (regularTax_js (calculateTax_js now (Fin t) h)) \<and>
           js_le (Fin 0) (savings_js (calculateTax_js now (Fin t) h))"
    if "\<bar>t\<bar> \<le> income_bound"
    using that by (simp add: calculateTax_js_exact result_js_def sel_savings)
  show ?thesis
    using a b c sel_recommendedScheme_js [of now T h] sel_savings_js [of now T h] by blast
qed

text \<open>
  The income 1000000: the taxes are finite and the savings are 28600.
\<close>

theorem scheme_and_savings_witness:
  "\<not> (section44adaTax_js (calculateTax_js \<lparr>getFullYear = 2026, getMonth = 10\<rparr> (Fin 1000000) False) = PInf \<and>
      regularTax_js (calculateTax_js \<lparr>getFullYear = 2026, getMonth = 10\<rparr> (Fin 1000000) False) = PInf) \<and>
   \<bar>1000000 :: rat\<bar> \<le> income_bound \<and>
   js_le (Fin 0) (savings_js (calculateTax_js \<lparr>getFullYear = 2026, getMonth = 10\<rparr> (Fin 1000000) False)) \<and>
   savings_js (calculateTax_js \<lparr>getFullYear = 2026, getMonth = 10\<rparr> (Fin 1000000) False) = Fin 28600 \<and>
   section44adaTax_js (calculateTax_js \<lparr>getFullYear = 2026, getMonth = 10\<rparr> (Fin (2 ^ 1023)) True) = PInf \<and>
   regularTax_js (calculateTax_js \<lparr>getFullYear = 2026, getMonth = 10\<rparr> (Fin (2 ^ 1023)) True) = PInf \<and>
   savings_js (calculateTax_js \<lparr>getFullYear = 2026, getMonth = 10\<rparr> (Fin (2 ^ 1023)) True) = NaN"
proof -
  let ?now = "\<lparr>getFullYear = 2026, getMonth = 10\<rparr>"
  have b: "\<bar>1000000 :: rat\<bar> \<le> income_bound"
    using bound_facts(2) by simp
  have small: "section44adaTax_js (calculateTax_js ?now (Fin 1000000) False) = Fin 7800"
    "savings_js (calculateTax_js ?now (Fin 1000000) False) = Fin 28600"
    by (simp_all add: calculateTax_js_exact [OF b] result_js_def sel_section44adaTax sel_regularTax
        sel_savings taxable_values income_tax_values)
  have T: "\<bar>2 ^ 1023 :: rat\<bar> < overflow_bound"
    by (simp add: overflow_bound_def)
  have "calculateIncomeTax_js (Fin (section44adaTaxableIncome (2 ^ 1023))) = PInf"
    by (rule calculateIncomeTax_js_overflows)
      (simp_all add: section44adaTaxableIncome_def Let_def overflow_bound_def standardDeduction_def)
  moreover have "calculateIncomeTax_js (Fin (regularTaxableIncome_of (2 ^ 1023) True)) = PInf"
    by (rule calculateIncomeTax_js_overflows)
      (simp_all add: regularTaxableIncome_of_def Let_def overflow_bound_def standardDeduction_def
        healthInsuranceDeduction_def)
  ultimately have big: "section44adaTax_js (calculateTax_js ?now (Fin (2 ^ 1023)) True) = PInf"
    "regularTax_js (calculateTax_js ?now (Fin (2 ^ 1023)) True) = PInf"
    by (simp_all only: calculateTax_js_unfold [OF T] Let_def TaxCalculationResult_js.simps)
  have "savings_js (calculateTax_js ?now (Fin (2 ^ 1023)) True) = NaN"
    using big scheme_and_savings [of ?now "Fin (2 ^ 1023)" True 0] by blast
  moreover have ne: "\<not> (section44adaTax_js (calculateTax_js ?now (Fin 1000000) False) = PInf \<and>
      regularTax_js (calculateTax_js ?now (Fin 1000000) False) = PInf)"
    using small(1) by simp
  moreover have "js_le (Fin 0) (savings_js (calculateTax_js ?now (Fin 1000000) False))"
    using ne scheme_and_savings [of ?now "Fin 1000000" False 1000000] by blast
  ultimately show ?thesis
    using b small(2) big by blast
qed

section \<open>Every function returns; when the result is well defined\<close>

lemma sel_incomes_js_finite:
  assumes "\<bar>t\<bar> < overflow_bound"
  shows "is_finite (totalIncome_js (calculateTax_js now (Fin t) h))"
    and "is_finite (section44adaIncome_js (calculateTax_js now (Fin t) h))"
    and "is_finite (regularTaxableIncome_js (calculateTax_js now (Fin t) h))"
  by (simp_all add: calculateTax_js_unfold [OF assms] Let_def)

lemma schedule_js_finite:
  assumes "nonneg_js v" "is_finite v"
  shows "list_all is_finite (map amount_js (calculateAdvanceTaxSchedule_js now v))"
proof -
  obtain a where v: "v = Fin a" and a: "0 \<le> a" "a < overflow_bound"
    using assms by (cases v) simp_all
  show ?thesis
    unfolding v calculateAdvanceTaxSchedule_js_exact [OF a]
    by (simp add: calculateAdvanceTaxSchedule_def payment_js_def Let_def)
qed

lemma savings_js_finite:
  assumes "nonneg_js s" "is_finite s" "nonneg_js r" "is_finite r"
  shows "is_finite (Math_abs_js (js_sub s r))"
  using assms by (cases s; cases r) (simp_all add: js_sub_def overflow_Fin)

lemma finite_result_iff:
  assumes "\<bar>t\<bar> < overflow_bound"
  shows "finite_result (calculateTax_js now (Fin t) h) =
           (is_finite (section44adaTax_js (calculateTax_js now (Fin t) h)) \<and>
            is_finite (regularTax_js (calculateTax_js now (Fin t) h)))"
proof -
  let ?R = "calculateTax_js now (Fin t) h"
  have "finite_result ?R"
    if f: "is_finite (section44adaTax_js ?R)" "is_finite (regularTax_js ?R)"
  proof -
    have "is_finite (savings_js ?R)"
      unfolding sel_savings_js using sel_taxes_js_nonneg f by (intro savings_js_finite)
    moreover have "list_all is_finite (map amount_js (advanceTaxSchedule_js ?R))"
      unfolding sel_advanceTaxSchedule_js
      using sel_taxes_js_nonneg [of now "Fin t" h] f by (intro schedule_js_finite) simp_all
    ultimately show ?thesis
      using f sel_incomes_js_finite [OF assms] by (simp add: finite_result_def)
  qed
  then show ?thesis
    by (auto simp add: finite_result_def)
qed

lemma getQuarterFromDate_range: "getQuarterFromDate d \<in> {1, 2, 3, 4}"
  by (simp add: getQuarterFromDate_def Let_def)

lemma getCurrentFinancialYear_nonempty: "getCurrentFinancialYear now \<noteq> []"
  by (simp add: getCurrentFinancialYear_def Let_def toString_def string_of_nat_nonempty)

lemma schedule_js_length: "length (advanceTaxSchedule_js (calculateTax_js now T h)) = 4"
  by (simp add: sel_advanceTaxSchedule_js calculateAdvanceTaxSchedule_js_def Let_def)

text \<open>
  C8, as the specification words it: a well-defined result for every numeric input. For the
  income \<open>2 ^ 1023\<close>, a finite double, the savings of the result are \<open>NaN\<close> and both taxes
  and the schedule amounts are \<open>Infinity\<close>.
\<close>

theorem overflow_result_counterexample:
  "\<bar>2 ^ 1023 :: rat\<bar> < overflow_bound \<and>
   savings_js (calculateTax_js \<lparr>getFullYear = 2026, getMonth = 10\<rparr> (Fin (2 ^ 1023)) False) = NaN \<and>
   \<not> finite_result (calculateTax_js \<lparr>getFullYear = 2026, getMonth = 10\<rparr> (Fin (2 ^ 1023)) False)"
proof -
  have "\<bar>2 ^ 1023 :: rat\<bar> < overflow_bound"
    by (simp add: overflow_bound_def)
  moreover have
    "savings_js (calculateTax_js \<lparr>getFullYear = 2026, getMonth = 10\<rparr> (Fin (2 ^ 1023)) False) = NaN"
    "\<not> finite_result (calculateTax_js \<lparr>getFullYear = 2026, getMonth = 10\<rparr> (Fin (2 ^ 1023)) False)"
    unfolding big_income_result by (simp_all add: finite_result_def)
  ultimately show ?thesis
    by blast
qed

text \<open>
  C8, amended. No function of the engine has an error branch: each returns a value for every
  input, and where arithmetic leaves the finite numbers the value is \<open>Infinity\<close> or
  \<open>NaN\<close>, not an error. For a finite income the result of \<open>calculateTax\<close> is well defined
  (every numeric field finite) exactly when neither tax has overflowed, which is so for
  every income of magnitude at most \<open>10 ^ 306\<close>. For every finite negative income both
  taxable incomes are clamped to 0: both taxes and the savings are 0, the recommendation
  is Section 44ADA and the schedule is that of a tax of 0. The schedule has four payments
  for every input, \<open>calculateGST\<close> is finite when the product of amount and rate does
  not overflow, \<open>getQuarterFromDate\<close> is one of 1 to 4 and \<open>getCurrentFinancialYear\<close>
  is a non-empty string.
\<close>

theorem engine_results:
  "(\<bar>t\<bar> < overflow_bound \<longrightarrow>
      finite_result (calculateTax_js now (Fin t) h) =
        (is_finite (section44adaTax_js (calculateTax_js now (Fin t) h)) \<and>
         is_finite (regularTax_js (calculateTax_js now (Fin t) h)))) \<and>
   (\<bar>t\<bar> \<le> income_bound \<longrightarrow> finite_result (calculateTax_js now (Fin t) h)) \<and>
   (t < 0 \<and> - overflow_bound < t \<longrightarrow>
      calculateTax_js now (Fin t) h =
        \<lparr>totalIncome_js = Fin t, section44adaIncome_js = Fin (t * 0.5),
         regularTaxableIncome_js = Fin 0, section44adaTax_js = Fin 0,
         regularTax_js = Fin 0, recommendedScheme_js = Section44ada,
         savings_js = Fin 0,
         advanceTaxSchedule_js = calculateAdvanceTaxSchedule_js now (Fin 0)\<rparr>) \<and>
   length (advanceTaxSchedule_js (calculateTax_js now T h)) = 4 \<and>
   (\<bar>a * r\<bar> < overflow_bound \<longrightarrow> is_finite (calculateGST_js (Fin a) (Fin r))) \<and>
   getQuarterFromDate d \<in> {1, 2, 3, 4} \<and>
   getCurrentFinancialYear now \<noteq> []"
proof -
  have "finite_result (calculateTax_js now (Fin t) h)" if "\<bar>t\<bar> \<le> income_bound"
    using that by (simp add: calculateTax_js_exact finite_result_js)
  moreover have "is_finite (calculateGST_js (Fin a) (Fin r))" if "\<bar>a * r\<bar> < overflow_bound"
    using that by (simp add: calculateGST_js_exact)
  ultimately show ?thesis
    using finite_result_iff [of t now h] calculateTax_js_negative [of t now h]
      schedule_js_length [of now T h] getQuarterFromDate_range [of d]
      getCurrentFinancialYear_nonempty [of now]
    by blast
qed

text \<open>
  The income -5 with health insurance, and the GST of 18 percent on 25000.
\<close>

theorem engine_results_witness:
  "\<bar>- 5 :: rat\<bar> < overflow_bound \<and> \<bar>- 5 :: rat\<bar> \<le> income_bound \<and>
   (- 5 :: rat) < 0 \<and> - overflow_bound < (- 5 :: rat) \<and>
   \<bar>25000 * 18 :: rat\<bar> < overflow_bound \<and>
   finite_result (calculateTax_js \<lparr>getFullYear = 2026, getMonth = 10\<rparr> (Fin (- 5)) True) \<and>
   calculateTax_js \<lparr>getFullYear = 2026, getMonth = 10\<rparr> (Fin (- 5)) True =
     \<lparr>totalIncome_js = Fin (- 5), section44adaIncome_js = Fin (- 5 * 0.5),
      regularTaxableIncome_js = Fin 0, section44adaTax_js = Fin 0,
      regularTax_js = Fin 0, recommendedScheme_js = Section44ada,
      savings_js = Fin 0,
      advanceTaxSchedule_js =
        calculateAdvanceTaxSchedule_js \<lparr>getFullYear = 2026, getMonth = 10\<rparr> (Fin 0)\<rparr> \<and>
   is_finite (calculateGST_js (Fin 25000) (Fin 18))"
proof -
  have b: "\<bar>- 5 :: rat\<bar> < overflow_bound" "\<bar>- 5 :: rat\<bar> \<le> income_bound"
    "(- 5 :: rat) < 0" "- overflow_bound < (- 5 :: rat)"
    "\<bar>25000 * 18 :: rat\<bar> < overflow_bound"
    using bound_facts by simp_all
  show ?thesis
    using b engine_results [of "- 5" "\<lparr>getFullYear = 2026, getMonth = 10\<rparr>" True NaN 25000 18
        "\<lparr>getFullYear = 2026, getMonth = 10\<rparr>"]
    by blast
qed

end
